theory Spec2Isabelle
  imports Complex_Main "HOL-Library.Char_ord" "HOL-Library.List_Lexorder"
    "HOL-Library.Product_Lexorder"
begin

unbundle bit_operations_syntax

section \<open>Login events and the feature frame (session.py)\<close>

text \<open>
  A row of the login log, with the six columns \<^verbatim>\<open>ts, user, device, ip, country, success\<close>.
  The column \<open>ts\<close> is a pandas \<^verbatim>\<open>datetime64[ns]\<close> value, kept here as the number of
  nanoseconds since the epoch; \<open>success\<close> is the integer column (1 = success, 0 = failure)
  that login.py writes. Floating-point columns are idealised as reals, integer columns are
  unbounded (no operation of the pipeline leaves the 64-bit range on timestamps that pandas
  can represent). Null values (\<^verbatim>\<open>NaT\<close>, \<^verbatim>\<open>NaN\<close>) in the six input columns are outside the
  record type.
\<close>

record login_event =
  ts :: int
  user :: string
  device :: string
  ip :: string
  country :: string
  success :: int

text \<open>A row of the frame returned by \<^verbatim>\<open>add_features\<close>: the input columns and the new ones.
  The columns \<^verbatim>\<open>hour_sin\<close> and \<^verbatim>\<open>hour_cos\<close> are functions of the column \<open>hour\<close>.\<close>

record feat_row = login_event +
  minute :: int
  hour :: int
  attempts :: nat
  fail_ratio :: real
  uniq_ips :: nat
  uniq_devices :: nat
  uniq_countries :: nat
  ts_sec :: int
  secs_since_last_success :: real
  uc_count :: nat
  ud_count :: nat
  rare_country_for_user :: int
  rare_device_for_user :: int

definition hour_sin :: "'a feat_row_scheme \<Rightarrow> real" where
  "hour_sin r = sin (2 * pi * real_of_int (hour r) / 24)"

definition hour_cos :: "'a feat_row_scheme \<Rightarrow> real" where
  "hour_cos r = cos (2 * pi * real_of_int (hour r) / 24)"

subsection \<open>Timestamp columns\<close>

text \<open>\<^verbatim>\<open>out["ts"].dt.floor("min")\<close>, \<^verbatim>\<open>out["ts"].dt.hour\<close> and
  \<^verbatim>\<open>out["ts"].view("int64") // 10**9\<close> on nanosecond timestamps.\<close>

definition floor_min :: "int \<Rightarrow> int" where
  "floor_min t = (t div 60000000000) * 60000000000"

definition hour_of :: "int \<Rightarrow> int" where
  "hour_of t = (t div 3600000000000) mod 24"

definition ts_sec_of :: "int \<Rightarrow> int" where
  "ts_sec_of t = t div 10 ^ 9"

subsection \<open>pandas group-by, aggregation and left join\<close>

text \<open>\<^verbatim>\<open>groupby(keys)\<close>: one group per distinct key, the groups in ascending key order, each
  group holding the rows with that key in frame order.\<close>

definition groupby :: "('r \<Rightarrow> 'k::linorder) \<Rightarrow> 'r list \<Rightarrow> ('k \<times> 'r list) list" where
  "groupby key rows =
     map (\<lambda>k. (k, filter (\<lambda>r. key r = k) rows)) (sort (remdups (map key rows)))"

text \<open>\<^verbatim>\<open>nunique\<close>: the number of distinct values of a column of a group.\<close>

definition nunique :: "'a list \<Rightarrow> nat" where
  "nunique vs = length (remdups vs)"

text \<open>\<^verbatim>\<open>s.mean()\<close> of a non-empty integer column.\<close>

definition mean :: "int list \<Rightarrow> real" where
  "mean vs = real_of_int (sum_list vs) / real (length vs)"

text \<open>The five aggregates of one (user, minute) group.\<close>

record minute_aggregate =
  agg_attempts :: nat
  agg_fail_ratio :: real
  agg_uniq_ips :: nat
  agg_uniq_devices :: nat
  agg_uniq_countries :: nat

definition agg :: "login_event list \<Rightarrow> minute_aggregate" where
  "agg g = \<lparr> agg_attempts = length g,
             agg_fail_ratio = 1 - mean (map success g),
             agg_uniq_ips = nunique (map ip g),
             agg_uniq_devices = nunique (map device g),
             agg_uniq_countries = nunique (map country g) \<rparr>"

definition minute_key :: "login_event \<Rightarrow> string \<times> int" where
  "minute_key r = (user r, floor_min (ts r))"

definition minute_agg :: "login_event list \<Rightarrow> ((string \<times> int) \<times> minute_aggregate) list" where
  "minute_agg df = map (\<lambda>(k, g). (k, agg g)) (groupby minute_key df)"

text \<open>A left join looks the key of each left row up in the right table; a row without a
  partner gets \<^verbatim>\<open>NaN\<close> (here \<open>None\<close>), which \<^verbatim>\<open>fillna(0)\<close> replaces by 0.\<close>

definition fillna :: "'a::zero option \<Rightarrow> 'a" where
  "fillna v = (case v of None \<Rightarrow> 0 | Some x \<Rightarrow> x)"

subsection \<open>The per-user cursor loop\<close>

text \<open>Lines 86 to 95: the dictionary \<^verbatim>\<open>last_success\<close> and the list
  \<^verbatim>\<open>secs_since_last_success\<close> are threaded through the rows in frame order; the loop
  returns both.\<close>

fun cursor_loop ::
  "(string \<rightharpoonup> int) \<Rightarrow> int list \<Rightarrow> login_event list \<Rightarrow> (string \<rightharpoonup> int) \<times> int list" where
  "cursor_loop last_success secs [] = (last_success, secs)"
| "cursor_loop last_success secs (row # rows) =
     (let u = user row;
          t = ts_sec_of (ts row);
          prev = last_success u;
          secs' = secs @ [case prev of None \<Rightarrow> 0 | Some p \<Rightarrow> t - p]
      in cursor_loop (if success row = 1 then last_success(u \<mapsto> t) else last_success) secs' rows)"

subsection \<open>add_features\<close>

definition feat_cols :: "string list" where
  "feat_cols =
     [''attempts'', ''fail_ratio'', ''uniq_ips'', ''uniq_devices'', ''uniq_countries'',
      ''hour_sin'', ''hour_cos'',
      ''secs_since_last_success'',
      ''rare_country_for_user'', ''rare_device_for_user'']"

definition uc_table :: "login_event list \<Rightarrow> ((string \<times> string) \<times> nat) list" where
  "uc_table df = map (\<lambda>(k, g). (k, length g)) (groupby (\<lambda>r. (user r, country r)) df)"

definition ud_table :: "login_event list \<Rightarrow> ((string \<times> string) \<times> nat) list" where
  "ud_table df = map (\<lambda>(k, g). (k, length g)) (groupby (\<lambda>r. (user r, device r)) df)"

text \<open>One row of the result: the input columns of \<open>r\<close>, the joined aggregates, the value \<open>s\<close>
  that the cursor loop appended for this row, and the rarity columns.\<close>

definition feature_row ::
  "((string \<times> int) \<times> minute_aggregate) list \<Rightarrow> ((string \<times> string) \<times> nat) list \<Rightarrow>
   ((string \<times> string) \<times> nat) list \<Rightarrow> login_event \<Rightarrow> int \<Rightarrow> feat_row" where
  "feature_row magg uc ud r s =
     (let a = map_of magg (user r, floor_min (ts r));
          ucc = fillna (map_of uc (user r, country r));
          udc = fillna (map_of ud (user r, device r))
      in \<lparr> ts = ts r, user = user r, device = device r, ip = ip r, country = country r,
           success = success r,
           minute = floor_min (ts r),
           hour = hour_of (ts r),
           attempts = fillna (map_option agg_attempts a),
           fail_ratio = fillna (map_option agg_fail_ratio a),
           uniq_ips = fillna (map_option agg_uniq_ips a),
           uniq_devices = fillna (map_option agg_uniq_devices a),
           uniq_countries = fillna (map_option agg_uniq_countries a),
           ts_sec = ts_sec_of (ts r),
           secs_since_last_success = real_of_int s,
           uc_count = ucc,
           ud_count = udc,
           rare_country_for_user = (if ucc < 3 then 1 else 0),
           rare_device_for_user = (if udc < 3 then 1 else 0) \<rparr>)"

text \<open>\<^verbatim>\<open>add_features(df)\<close> returns the enriched frame together with the list of feature
  columns. The merge and the two joins are left joins, so the rows keep the order of \<open>df\<close>;
  the cursor loop iterates over the rows of the merged frame, that is in the same order.\<close>

definition add_features :: "login_event list \<Rightarrow> feat_row list \<times> string list" where
  "add_features df =
     (let magg = minute_agg df;
          secs = snd (cursor_loop Map.empty [] df);
          uc = uc_table df;
          ud = ud_table df
      in (map2 (feature_row magg uc ud) df secs, feat_cols))"

section \<open>Scoring and flagging (detect_anomalies)\<close>

text \<open>The errors the pipeline can end in. \<open>InvalidConfiguration\<close> stands for the
  \<^verbatim>\<open>ValueError\<close> that the input validation of scikit-learn and numpy raises (a parameter
  out of its range, an array without samples or features, a string where a number is
  expected); \<open>KeyError\<close> is the selection of a column the frame does not have; \<open>TypeError\<close>
  is what the conversion of a timestamp to a number raises in an array of mixed cells.\<close>

datatype error = InvalidConfiguration | KeyError | TypeError

record scored_row = feat_row +
  anomaly_score :: real
  ml_flag :: int
  rule_flag :: int
  final_flag :: int

subsection \<open>Column selection\<close>

datatype cell = Num real | Str string | Time int

text \<open>The columns of the feature frame by name.\<close>

definition columns :: "(string \<times> (feat_row \<Rightarrow> cell)) list" where
  "columns =
     [(''ts'', \<lambda>r. Time (ts r)),
      (''user'', \<lambda>r. Str (user r)),
      (''device'', \<lambda>r. Str (device r)),
      (''ip'', \<lambda>r. Str (ip r)),
      (''country'', \<lambda>r. Str (country r)),
      (''success'', \<lambda>r. Num (real_of_int (success r))),
      (''minute'', \<lambda>r. Time (minute r)),
      (''hour'', \<lambda>r. Num (real_of_int (hour r))),
      (''hour_sin'', \<lambda>r. Num (hour_sin r)),
      (''hour_cos'', \<lambda>r. Num (hour_cos r)),
      (''attempts'', \<lambda>r. Num (real (attempts r))),
      (''fail_ratio'', \<lambda>r. Num (fail_ratio r)),
      (''uniq_ips'', \<lambda>r. Num (real (uniq_ips r))),
      (''uniq_devices'', \<lambda>r. Num (real (uniq_devices r))),
      (''uniq_countries'', \<lambda>r. Num (real (uniq_countries r))),
      (''ts_sec'', \<lambda>r. Num (real_of_int (ts_sec r))),
      (''secs_since_last_success'', \<lambda>r. Num (secs_since_last_success r)),
      (''uc_count'', \<lambda>r. Num (real (uc_count r))),
      (''ud_count'', \<lambda>r. Num (real (ud_count r))),
      (''rare_country_for_user'', \<lambda>r. Num (real_of_int (rare_country_for_user r))),
      (''rare_device_for_user'', \<lambda>r. Num (real_of_int (rare_device_for_user r)))]"

text \<open>\<^verbatim>\<open>df_feat[feat_cols].values\<close>: a \<^verbatim>\<open>KeyError\<close> when a name is not a column, otherwise
  one list of cells per row, in frame order.\<close>

definition select_values :: "string list \<Rightarrow> feat_row list \<Rightarrow> error + cell list list" where
  "select_values cols df =
     (case those (map (map_of columns) cols) of
        None \<Rightarrow> Inl KeyError
      | Some fs \<Rightarrow> Inr (map (\<lambda>r. map (\<lambda>f. f r) fs) df))"

subsection \<open>The library calls\<close>

text \<open>The isolation forest itself is scikit-learn's and not part of the repository. It
  enters as a parameter: \<open>isf n c seed X\<close> is the function \<^verbatim>\<open>score_samples\<close> of the forest
  \<^verbatim>\<open>IsolationForest(n_estimators=n, contamination=c, random_state=seed).fit(X)\<close> on one
  sample. What is modelled of the library is its input validation. \<^verbatim>\<open>fit\<close> checks its
  parameters first: the contamination rate must lie in the half-open interval from 0
  (excluded) to 0.5 (included), the number of trees must be at least 1, and an integer
  seed must lie between 0 and \<open>2^32 - 1\<close>. Then it converts the array to floating point:
  an array of timestamps only is taken as numbers (its nanoseconds); otherwise the cells
  are converted one by one in row-major order, a string raising \<^verbatim>\<open>ValueError\<close> and a
  timestamp \<^verbatim>\<open>TypeError\<close>; the array must have at least one sample and one feature.\<close>

type_synonym scorer = "nat \<Rightarrow> real \<Rightarrow> int \<Rightarrow> real list list \<Rightarrow> real list \<Rightarrow> real"

fun is_time :: "cell \<Rightarrow> bool" where
  "is_time (Time _) = True"
| "is_time (Num _) = False"
| "is_time (Str _) = False"

fun time_value :: "cell \<Rightarrow> real" where
  "time_value (Time t) = real_of_int t"
| "time_value (Num x) = x"
| "time_value (Str _) = 0"

fun to_float :: "cell \<Rightarrow> error + real" where
  "to_float (Num x) = Inr x"
| "to_float (Str _) = Inl InvalidConfiguration"
| "to_float (Time _) = Inl TypeError"

fun convert_cells :: "cell list \<Rightarrow> error + real list" where
  "convert_cells [] = Inr []"
| "convert_cells (c # cs) =
     (case to_float c of
        Inl e \<Rightarrow> Inl e
      | Inr x \<Rightarrow> (case convert_cells cs of Inl e \<Rightarrow> Inl e | Inr xs \<Rightarrow> Inr (x # xs)))"

fun convert_rows :: "cell list list \<Rightarrow> error + real list list" where
  "convert_rows [] = Inr []"
| "convert_rows (row # rows) =
     (case convert_cells row of
        Inl e \<Rightarrow> Inl e
      | Inr xs \<Rightarrow> (case convert_rows rows of Inl e \<Rightarrow> Inl e | Inr xss \<Rightarrow> Inr (xs # xss)))"

definition check_array :: "cell list list \<Rightarrow> error + real list list" where
  "check_array X =
     (if X \<noteq> [] \<and> hd X \<noteq> [] \<and> list_all (list_all is_time) X
      then Inr (map (map time_value) X)
      else case convert_rows X of
        Inl e \<Rightarrow> Inl e
      | Inr Xf \<Rightarrow>
          if Xf = [] then Inl InvalidConfiguration
          else if hd Xf = [] then Inl InvalidConfiguration
          else Inr Xf)"

text \<open>\<^verbatim>\<open>IsolationForest(...).fit(X)\<close>; the result is the fitted forest, given by its
  \<^verbatim>\<open>score_samples\<close>.\<close>

definition IsolationForest_fit ::
  "scorer \<Rightarrow> nat \<Rightarrow> real \<Rightarrow> int \<Rightarrow> cell list list \<Rightarrow> error + (cell list list \<Rightarrow> error + real list)" where
  "IsolationForest_fit isf n_estimators contamination random_state X =
     (if \<not> (0 < contamination \<and> contamination \<le> 1 / 2) then Inl InvalidConfiguration
      else if n_estimators < 1 then Inl InvalidConfiguration
      else if \<not> (0 \<le> random_state \<and> random_state \<le> 2 ^ 32 - 1) then Inl InvalidConfiguration
      else case check_array X of
        Inl e \<Rightarrow> Inl e
      | Inr Xf \<Rightarrow>
          Inr (\<lambda>Y. case check_array Y of
                 Inl e \<Rightarrow> Inl e
               | Inr Yf \<Rightarrow> Inr (map (isf n_estimators contamination random_state Xf) Yf)))"

text \<open>\<^verbatim>\<open>np.quantile(a, q)\<close> with the default method (linear interpolation): \<open>q\<close> must lie
  in the closed unit interval; the value sits at the virtual index \<open>q * (n - 1)\<close> of the
  sorted array, between its two neighbours. On an empty array numpy answers \<^verbatim>\<open>nan\<close>; the
  pipeline never gets there (\<^verbatim>\<open>fit\<close> has rejected an empty batch before), and the model
  answers with the error.\<close>

definition np_quantile :: "real list \<Rightarrow> real \<Rightarrow> error + real" where
  "np_quantile a q =
     (if \<not> (0 \<le> q \<and> q \<le> 1) then Inl InvalidConfiguration
      else if a = [] then Inl InvalidConfiguration
      else
        (let s = sort a;
             n = length s;
             h = q * real (n - 1);
             lo = nat \<lfloor>h\<rfloor>;
             hi = min (lo + 1) (n - 1);
             g = h - real lo
         in Inr (s ! lo + g * (s ! hi - s ! lo))))"

subsection \<open>detect_anomalies\<close>

text \<open>The rule of line 142, on one row.\<close>

definition rule :: "'a feat_row_scheme \<Rightarrow> int" where
  "rule r = (if fail_ratio r > 8 / 10 \<and> uniq_ips r \<ge> 5 then 1 else 0)"

definition flag_row :: "real \<Rightarrow> feat_row \<Rightarrow> real \<Rightarrow> scored_row" where
  "flag_row thr r score =
     (let ml = (if score \<ge> thr then 1 else 0);
          ru = rule r
      in feat_row.extend r (scored_row.fields score ml ru (ml OR ru)))"

definition detect_anomalies ::
  "scorer \<Rightarrow> feat_row list \<Rightarrow> string list \<Rightarrow> real \<Rightarrow> int \<Rightarrow> error + scored_row list" where
  "detect_anomalies isf df_feat cols contamination seed =
     (case select_values cols df_feat of
        Inl e \<Rightarrow> Inl e
      | Inr X \<Rightarrow>
          (case IsolationForest_fit isf 300 contamination seed X of
             Inl e \<Rightarrow> Inl e
           | Inr score_samples \<Rightarrow>
               (case score_samples X of
                  Inl e \<Rightarrow> Inl e
                | Inr ss \<Rightarrow>
                    (let scores = map uminus ss in
                     case np_quantile scores (1 - contamination) of
                       Inl e \<Rightarrow> Inl e
                     | Inr thr \<Rightarrow> Inr (map2 (flag_row thr) df_feat scores)))))"

section \<open>Frames as objects: the store\<close>

text \<open>A pandas frame is a mutable object and a variable holds a reference to it. To tell a
  write into the caller's frame from a write into a copy, the two functions are modelled a
  second time over a store of frames, addressed by position. \<^verbatim>\<open>df.copy()\<close>, \<^verbatim>\<open>merge\<close> and
  \<^verbatim>\<open>join\<close> allocate a new frame; a column assignment \<^verbatim>\<open>out[c] = v\<close> overwrites the frame at
  the address that the variable holds. A column that a frame does not have yet is
  represented by the value 0 in every row; each column is assigned before it is read.\<close>

datatype frame = Events "login_event list" | Features "feat_row list" | Scored "scored_row list"

type_synonym store = "frame list"

definition alloc :: "store \<Rightarrow> frame \<Rightarrow> store \<times> nat" where
  "alloc s f = (s @ [f], length s)"

definition frame_copy :: "store \<Rightarrow> nat \<Rightarrow> store \<times> nat" where
  "frame_copy s a = alloc s (s ! a)"

definition assign :: "store \<Rightarrow> nat \<Rightarrow> frame \<Rightarrow> store" where
  "assign s a f = s[a := f]"

definition blank :: "login_event \<Rightarrow> feat_row" where
  "blank e = login_event.extend e (feat_row.fields 0 0 0 0 0 0 0 0 0 0 0 0 0)"

definition blank_scored :: "feat_row \<Rightarrow> scored_row" where
  "blank_scored r = feat_row.extend r (scored_row.fields 0 0 0 0)"

text \<open>\<^verbatim>\<open>add_features\<close>, statement by statement. The argument \<open>df\<close> is the address of the
  caller's frame, which must hold login events; the result is the store after the call and
  the address of the returned frame. The two \<^verbatim>\<open>fillna(0)\<close> statements (lines 101 and 112)
  find nothing to fill, the joins having defaulted already.\<close>

definition add_features_st :: "store \<Rightarrow> nat \<Rightarrow> store \<times> (error + nat \<times> string list)" where
  "add_features_st s df =
     (if length s \<le> df then (s, Inl KeyError)
      else
        (let (s, out) = frame_copy s df in
         case s ! out of
           Features _ \<Rightarrow> (s, Inl KeyError)
         | Scored _ \<Rightarrow> (s, Inl KeyError)
         | Events rows \<Rightarrow>
             (let cur = map (\<lambda>e. (blank e)\<lparr>minute := floor_min (ts e)\<rparr>) rows;
                  s = assign s out (Features cur);
                  cur = map (\<lambda>r. r\<lparr>hour := hour_of (ts r)\<rparr>) cur;
                  s = assign s out (Features cur);
                  magg = minute_agg rows;
                  cur = map (\<lambda>r. let a = map_of magg (user r, minute r)
                                  in r\<lparr>attempts := fillna (map_option agg_attempts a),
                                       fail_ratio := fillna (map_option agg_fail_ratio a),
                                       uniq_ips := fillna (map_option agg_uniq_ips a),
                                       uniq_devices := fillna (map_option agg_uniq_devices a),
                                       uniq_countries := fillna (map_option agg_uniq_countries a)\<rparr>) cur;
                  (s, out) = alloc s (Features cur);
                  cur = map (\<lambda>r. r\<lparr>ts_sec := ts_sec_of (ts r)\<rparr>) cur;
                  s = assign s out (Features cur);
                  secs = snd (cursor_loop Map.empty [] rows);
                  cur = map2 (\<lambda>r v. r\<lparr>secs_since_last_success := real_of_int v\<rparr>) cur secs;
                  s = assign s out (Features cur);
                  uc = uc_table rows;
                  ud = ud_table rows;
                  cur = map (\<lambda>r. r\<lparr>uc_count := fillna (map_of uc (user r, country r))\<rparr>) cur;
                  (s, out) = alloc s (Features cur);
                  cur = map (\<lambda>r. r\<lparr>ud_count := fillna (map_of ud (user r, device r))\<rparr>) cur;
                  (s, out) = alloc s (Features cur);
                  cur = map (\<lambda>r. r\<lparr>rare_country_for_user := (if uc_count r < 3 then 1 else 0)\<rparr>) cur;
                  s = assign s out (Features cur);
                  cur = map (\<lambda>r. r\<lparr>rare_device_for_user := (if ud_count r < 3 then 1 else 0)\<rparr>) cur;
                  s = assign s out (Features cur)
              in (s, Inr (out, feat_cols)))))"

text \<open>\<^verbatim>\<open>detect_anomalies\<close>, statement by statement: the values are read and the forest is
  fitted before the copy is made; the four new columns are assigned to the copy.\<close>

definition detect_anomalies_st ::
  "scorer \<Rightarrow> store \<Rightarrow> nat \<Rightarrow> string list \<Rightarrow> real \<Rightarrow> int \<Rightarrow> store \<times> (error + nat)" where
  "detect_anomalies_st isf s df_feat cols contamination seed =
     (if length s \<le> df_feat then (s, Inl KeyError)
      else case s ! df_feat of
        Events _ \<Rightarrow> (s, Inl KeyError)
      | Scored _ \<Rightarrow> (s, Inl KeyError)
      | Features rows \<Rightarrow>
          (case select_values cols rows of
             Inl e \<Rightarrow> (s, Inl e)
           | Inr X \<Rightarrow>
               (case IsolationForest_fit isf 300 contamination seed X of
                  Inl e \<Rightarrow> (s, Inl e)
                | Inr score_samples \<Rightarrow>
                    (case score_samples X of
                       Inl e \<Rightarrow> (s, Inl e)
                     | Inr ss \<Rightarrow>
                         (let scores = map uminus ss;
                              (s, df_out) = frame_copy s df_feat;
                              cur = map2 (\<lambda>r v. (blank_scored r)\<lparr>anomaly_score := v\<rparr>) rows scores;
                              s = assign s df_out (Scored cur)
                          in case np_quantile scores (1 - contamination) of
                               Inl e \<Rightarrow> (s, Inl e)
                             | Inr thr \<Rightarrow>
                                 (let cur = map (\<lambda>r. r\<lparr>ml_flag := (if anomaly_score r \<ge> thr then 1 else 0)\<rparr>) cur;
                                      s = assign s df_out (Scored cur);
                                      cur = map (\<lambda>r. r\<lparr>rule_flag := rule r\<rparr>) cur;
                                      s = assign s df_out (Scored cur);
                                      cur = map (\<lambda>r. r\<lparr>final_flag := ml_flag r OR rule_flag r\<rparr>) cur;
                                      s = assign s df_out (Scored cur)
                                  in (s, Inr df_out)))))))"

section \<open>The isolation forest of the specification\<close>

text \<open>The repository calls scikit-learn's \<^verbatim>\<open>IsolationForest\<close> and holds no forest code of
  its own. The definitions of this section follow the words of section 4.2 of the
  specification instead.\<close>

text \<open>Modelled from the spec: the isolation tree (the forest engine is missing from the
  sources). An internal node holds a feature index and a split threshold, a leaf the
  number of training points that reached it.\<close>

datatype itree = Leaf nat | Node nat real itree itree

text \<open>Modelled from the spec: the forest (missing from the sources), an ensemble of trees
  plus the subsample size used to build them.\<close>

record forest =
  trees :: "itree list"
  subsample_size :: nat

text \<open>Modelled from the spec: the harmonic number \<open>H\<close> (missing from the sources), taken as
  \<open>ln i + 0.5772\<close> for \<open>i > 0\<close> and 0 for \<open>i = 0\<close>.\<close>

definition harmonic :: "nat \<Rightarrow> real" where
  "harmonic i = (if i > 0 then ln (real i) + 5772 / 10000 else 0)"

text \<open>Modelled from the spec: the normalisation \<open>c\<close> (missing from the sources),
  \<open>c m = 2 * H (m - 1) - 2 * (m - 1) / m\<close> for \<open>m > 1\<close> and 0 otherwise.\<close>

definition c_norm :: "nat \<Rightarrow> real" where
  "c_norm m = (if m > 1 then 2 * harmonic (m - 1) - 2 * real (m - 1) / real m else 0)"

text \<open>Modelled from the spec: the path length of a point in a tree (missing from the
  sources): the number of edges to the leaf, a point going left when its value is below
  the threshold, plus \<open>c\<close> of the leaf size when the leaf holds more than one point. The
  trees of a fitted forest split on feature indices below the dimension of the vectors.\<close>

fun path_length :: "real list \<Rightarrow> itree \<Rightarrow> real" where
  "path_length x (Leaf n) = (if n > 1 then c_norm n else 0)"
| "path_length x (Node f t l r) =
     1 + (if x ! f < t then path_length x l else path_length x r)"

text \<open>Modelled from the spec: the average path length of a point across all trees (missing
  from the sources).\<close>

definition avg_path_length :: "forest \<Rightarrow> real list \<Rightarrow> real" where
  "avg_path_length F x = sum_list (map (path_length x) (trees F)) / real (length (trees F))"

text \<open>Modelled from the spec: the anomaly score of a point (missing from the sources), 2 to
  the power of minus its average path length over \<open>c\<close> of the subsample size.\<close>

definition score_point :: "forest \<Rightarrow> real list \<Rightarrow> real" where
  "score_point F x = 2 powr (- avg_path_length F x / c_norm (subsample_size F))"

text \<open>Modelled from the spec: the operation \<^verbatim>\<open>score(forest, vectors)\<close> (missing from the
  sources), one score per vector.\<close>

definition score_forest :: "forest \<Rightarrow> real list list \<Rightarrow> real list" where
  "score_forest F vectors = map (score_point F) vectors"

text \<open>Modelled from the spec: the forest as it enters \<open>detect_anomalies\<close>. The function
  \<^verbatim>\<open>score_samples\<close> of scikit-learn (missing from the sources) is the score with the sign
  reversed, which line 134 reverses again; \<open>F\<close> is a forest that \<^verbatim>\<open>fit\<close> has built.\<close>

definition forest_scorer :: "forest \<Rightarrow> scorer" where
  "forest_scorer F n c seed X x = - score_point F x"

section \<open>Auxiliary definitions for the proofs\<close>

text \<open>One iteration of the cursor loop, split into the value it appends and the dictionary it
  leaves; \<open>cursor_values\<close> is the list of appended values without the accumulator.\<close>

definition cursor_step :: "(string \<rightharpoonup> int) \<Rightarrow> login_event \<Rightarrow> (string \<rightharpoonup> int)" where
  "cursor_step m row = (if success row = 1 then m(user row \<mapsto> ts_sec_of (ts row)) else m)"

definition cursor_value :: "(string \<rightharpoonup> int) \<Rightarrow> login_event \<Rightarrow> int" where
  "cursor_value m row = (case m (user row) of None \<Rightarrow> 0 | Some p \<Rightarrow> ts_sec_of (ts row) - p)"

fun cursor_values :: "(string \<rightharpoonup> int) \<Rightarrow> login_event list \<Rightarrow> int list" where
  "cursor_values m [] = []"
| "cursor_values m (row # rows) = cursor_value m row # cursor_values (cursor_step m row) rows"

text \<open>An event at \<open>t\<close> seconds after the epoch, for the concrete evaluations.\<close>

definition ev :: "int \<Rightarrow> string \<Rightarrow> string \<Rightarrow> string \<Rightarrow> string \<Rightarrow> int \<Rightarrow> login_event" where
  "ev t u d a c s = \<lparr> ts = t * 10 ^ 9, user = u, device = d, ip = a, country = c, success = s \<rparr>"

text \<open>A stand-in for a fitted forest, for the concrete evaluations: \<^verbatim>\<open>score_samples\<close> of a
  point is minus a tenth of its first feature.\<close>

definition demo_scorer :: scorer where
  "demo_scorer n c seed X x = - (hd x / 10)"

text \<open>The row of \<^verbatim>\<open>df_feat[feat_cols].values\<close> for the feature columns of \<open>add_features\<close>.\<close>

definition feat_vector :: "feat_row \<Rightarrow> real list" where
  "feat_vector r =
     [real (attempts r), fail_ratio r, real (uniq_ips r), real (uniq_devices r),
      real (uniq_countries r), hour_sin r, hour_cos r, secs_since_last_success r,
      real_of_int (rare_country_for_user r), real_of_int (rare_device_for_user r)]"

section \<open>Properties of add_features\<close>

subsection \<open>Group-by and the cursor loop\<close>

lemma map_of_groupby:
  "map_of (map (\<lambda>(k, g). (k, f g)) (groupby key rows)) k =
     (if k \<in> key ` set rows then Some (f (filter (\<lambda>r. key r = k) rows)) else None)"
proof -
  have "map (\<lambda>(k, g). (k, f g)) (groupby key rows) =
        map (\<lambda>k. (k, f (filter (\<lambda>r. key r = k) rows))) (sort (remdups (map key rows)))"
    by (simp add: groupby_def)
  then show ?thesis
    by (simp add: map_of_map_restrict restrict_map_def)
qed

lemma cursor_loop_eq:
  "cursor_loop m acc xs = (foldl cursor_step m xs, acc @ cursor_values m xs)"
  by (induction xs arbitrary: m acc) (simp_all add: Let_def cursor_step_def cursor_value_def)

lemma length_cursor_values: "length (cursor_values m xs) = length xs"
  by (induction xs arbitrary: m) simp_all

lemma cursor_values_nth:
  "i < length xs \<Longrightarrow> cursor_values m xs ! i = cursor_value (foldl cursor_step m (take i xs)) (xs ! i)"
proof (induction xs arbitrary: m i)
  case Nil
  then show ?case by simp
next
  case (Cons x xs)
  then show ?case by (cases i) simp_all
qed

text \<open>The dictionary after a pass: the time of the latest success of each user.\<close>
lemma cursor_state:
  "foldl cursor_step m xs u =
     (case filter (\<lambda>e. user e = u \<and> success e = 1) xs of
        [] \<Rightarrow> m u
      | p # ps \<Rightarrow> Some (ts_sec_of (ts (last (p # ps)))))"
proof (induction xs rule: rev_induct)
  case Nil
  show ?case by simp
next
  case (snoc x xs)
  show ?case
    using snoc.IH
    by (auto simp: cursor_step_def split: list.splits)
qed

lemma add_features_length: "length (fst (add_features df)) = length df"
  by (simp add: add_features_def Let_def cursor_loop_eq length_cursor_values)

lemma add_features_nth:
  "i < length df \<Longrightarrow>
   fst (add_features df) ! i =
     feature_row (minute_agg df) (uc_table df) (ud_table df) (df ! i)
       (cursor_values Map.empty df ! i)"
  by (simp add: add_features_def Let_def cursor_loop_eq length_cursor_values)


subsection \<open>Rarity flags\<close>

lemma feature_row_uc:
  "r \<in> set df \<Longrightarrow>
   uc_count (feature_row magg (uc_table df) ud r s) =
     length (filter (\<lambda>e. user e = user r \<and> country e = country r) df)"
proof -
  assume r: "r \<in> set df"
  have eq: "(\<lambda>e. (user e, country e) = (user r, country r)) =
            (\<lambda>e. user e = user r \<and> country e = country r)" by auto
  have "(user r, country r) \<in> (\<lambda>e. (user e, country e)) ` set df" using r by force
  then show ?thesis
    by (simp add: feature_row_def Let_def uc_table_def map_of_groupby fillna_def eq)
qed

lemma feature_row_ud:
  "r \<in> set df \<Longrightarrow>
   ud_count (feature_row magg uc (ud_table df) r s) =
     length (filter (\<lambda>e. user e = user r \<and> device e = device r) df)"
proof -
  assume r: "r \<in> set df"
  have eq: "(\<lambda>e. (user e, device e) = (user r, device r)) =
            (\<lambda>e. user e = user r \<and> device e = device r)" by auto
  have "(user r, device r) \<in> (\<lambda>e. (user e, device e)) ` set df" using r by force
  then show ?thesis
    by (simp add: feature_row_def Let_def ud_table_def map_of_groupby fillna_def eq)
qed

lemma feature_row_rare:
  "rare_country_for_user (feature_row magg uc ud r s) = (if uc_count (feature_row magg uc ud r s) < 3 then 1 else 0)"
  "rare_device_for_user (feature_row magg uc ud r s) = (if ud_count (feature_row magg uc ud r s) < 3 then 1 else 0)"
  by (simp_all add: feature_row_def Let_def)

text \<open>Claim C6. For every batch and every row, \<open>rare_country_for_user\<close> is 1 exactly when
  the number of rows of the whole batch with the row's (user, country) pair is below 3, and
  \<open>rare_device_for_user\<close> is 1 exactly when the whole-batch count of its (user, device) pair
  is below 3; otherwise the flag is 0. The counts range over the entire batch \<open>df\<close>, with no
  restriction to a minute window.\<close>

theorem rarity_flags_whole_batch:
  assumes "i < length df"
  shows "(rare_country_for_user (fst (add_features df) ! i) = 1 \<longleftrightarrow>
            length (filter (\<lambda>e. user e = user (df ! i) \<and> country e = country (df ! i)) df) < 3)
       \<and> (rare_country_for_user (fst (add_features df) ! i) \<noteq> 1 \<longrightarrow>
            rare_country_for_user (fst (add_features df) ! i) = 0)
       \<and> (rare_device_for_user (fst (add_features df) ! i) = 1 \<longleftrightarrow>
            length (filter (\<lambda>e. user e = user (df ! i) \<and> device e = device (df ! i)) df) < 3)
       \<and> (rare_device_for_user (fst (add_features df) ! i) \<noteq> 1 \<longrightarrow>
            rare_device_for_user (fst (add_features df) ! i) = 0)"
proof -
  have mem: "df ! i \<in> set df" using assms by simp
  show ?thesis
    using assms
    by (simp add: add_features_nth feature_row_rare feature_row_uc [OF mem] feature_row_ud [OF mem])
qed

theorem rarity_flags_whole_batch_witness:
  "rare_country_for_user (fst (add_features
       [ev 0 ''u1'' ''d1'' ''10.0.0.1'' ''DE'' 1, ev 100 ''u1'' ''d1'' ''10.0.0.1'' ''DE'' 1,
        ev 200 ''u1'' ''d1'' ''10.0.0.1'' ''FR'' 1]) ! 0) = 1
   \<and> rare_device_for_user (fst (add_features
       [ev 0 ''u1'' ''d1'' ''10.0.0.1'' ''DE'' 1, ev 100 ''u1'' ''d1'' ''10.0.0.1'' ''DE'' 1,
        ev 200 ''u1'' ''d1'' ''10.0.0.1'' ''FR'' 1]) ! 0) = 0"
proof -
  let ?df = "[ev 0 ''u1'' ''d1'' ''10.0.0.1'' ''DE'' 1, ev 100 ''u1'' ''d1'' ''10.0.0.1'' ''DE'' 1,
        ev 200 ''u1'' ''d1'' ''10.0.0.1'' ''FR'' 1]"
  have h: "0 < length ?df" by simp
  from rarity_flags_whole_batch [OF h] show ?thesis
    by (simp add: ev_def)
qed

subsection \<open>Window aggregates\<close>

lemma feature_row_window:
  assumes "r \<in> set df"
  defines "w \<equiv> filter (\<lambda>e. user e = user r \<and> floor_min (ts e) = floor_min (ts r)) df"
  shows "attempts (feature_row (minute_agg df) uc ud r s) = length w"
    and "fail_ratio (feature_row (minute_agg df) uc ud r s) =
           1 - real_of_int (sum_list (map success w)) / real (length w)"
    and "uniq_ips (feature_row (minute_agg df) uc ud r s) = card (ip ` set w)"
    and "uniq_devices (feature_row (minute_agg df) uc ud r s) = card (device ` set w)"
    and "uniq_countries (feature_row (minute_agg df) uc ud r s) = card (country ` set w)"
proof -
  have eq: "(\<lambda>e. minute_key e = (user r, floor_min (ts r))) =
            (\<lambda>e. user e = user r \<and> floor_min (ts e) = floor_min (ts r))"
    by (auto simp: minute_key_def)
  have "(user r, floor_min (ts r)) \<in> minute_key ` set df"
    using assms(1) by (force simp: minute_key_def)
  then have look: "map_of (minute_agg df) (user r, floor_min (ts r)) = Some (agg w)"
    by (simp add: minute_agg_def map_of_groupby eq w_def)
  show "attempts (feature_row (minute_agg df) uc ud r s) = length w"
    by (simp add: feature_row_def Let_def look fillna_def agg_def)
  show "fail_ratio (feature_row (minute_agg df) uc ud r s) =
           1 - real_of_int (sum_list (map success w)) / real (length w)"
    by (simp add: feature_row_def Let_def look fillna_def agg_def mean_def)
  show "uniq_ips (feature_row (minute_agg df) uc ud r s) = card (ip ` set w)"
    by (simp add: feature_row_def Let_def look fillna_def agg_def nunique_def length_remdups_card_conv)
  show "uniq_devices (feature_row (minute_agg df) uc ud r s) = card (device ` set w)"
    by (simp add: feature_row_def Let_def look fillna_def agg_def nunique_def length_remdups_card_conv)
  show "uniq_countries (feature_row (minute_agg df) uc ud r s) = card (country ` set w)"
    by (simp add: feature_row_def Let_def look fillna_def agg_def nunique_def length_remdups_card_conv)
qed


text \<open>Claim C4. For every batch and every row \<open>i\<close>: \<open>attempts\<close> is the number of rows of
  the batch in the row's (user, minute) window, \<open>fail_ratio\<close> is 1 minus the mean of
  \<open>success\<close> over that window, and \<open>uniq_ips\<close>, \<open>uniq_devices\<close>, \<open>uniq_countries\<close> count the
  distinct values of their field within that window only. Any other row \<open>j\<close> with the same
  user and the same minute carries the same five values.\<close>

theorem window_aggregates:
  assumes "i < length df" and "j < length df"
    and "user (df ! j) = user (df ! i)"
    and "floor_min (ts (df ! j)) = floor_min (ts (df ! i))"
  shows "attempts (fst (add_features df) ! i) =
           length (filter (\<lambda>e. user e = user (df ! i) \<and> floor_min (ts e) = floor_min (ts (df ! i))) df)
       \<and> fail_ratio (fst (add_features df) ! i) =
           1 - real_of_int (sum_list (map success
                 (filter (\<lambda>e. user e = user (df ! i) \<and> floor_min (ts e) = floor_min (ts (df ! i))) df)))
               / real (length (filter (\<lambda>e. user e = user (df ! i) \<and> floor_min (ts e) = floor_min (ts (df ! i))) df))
       \<and> uniq_ips (fst (add_features df) ! i) =
           card (ip ` set (filter (\<lambda>e. user e = user (df ! i) \<and> floor_min (ts e) = floor_min (ts (df ! i))) df))
       \<and> uniq_devices (fst (add_features df) ! i) =
           card (device ` set (filter (\<lambda>e. user e = user (df ! i) \<and> floor_min (ts e) = floor_min (ts (df ! i))) df))
       \<and> uniq_countries (fst (add_features df) ! i) =
           card (country ` set (filter (\<lambda>e. user e = user (df ! i) \<and> floor_min (ts e) = floor_min (ts (df ! i))) df))
       \<and> attempts (fst (add_features df) ! j) = attempts (fst (add_features df) ! i)
       \<and> fail_ratio (fst (add_features df) ! j) = fail_ratio (fst (add_features df) ! i)
       \<and> uniq_ips (fst (add_features df) ! j) = uniq_ips (fst (add_features df) ! i)
       \<and> uniq_devices (fst (add_features df) ! j) = uniq_devices (fst (add_features df) ! i)
       \<and> uniq_countries (fst (add_features df) ! j) = uniq_countries (fst (add_features df) ! i)"
proof -
  have mi: "df ! i \<in> set df" and mj: "df ! j \<in> set df"
    using assms(1,2) by simp_all
  note wi = feature_row_window [OF mi]
  note wj = feature_row_window [OF mj]
  show ?thesis
    using assms
    by (simp add: add_features_nth wi wj)
qed

theorem window_aggregates_witness:
  "attempts (fst (add_features
       [ev 0 ''u1'' ''d1'' ''10.0.0.1'' ''DE'' 1, ev 30 ''u1'' ''d1'' ''10.0.0.2'' ''DE'' 0,
        ev 90 ''u1'' ''d1'' ''10.0.0.3'' ''DE'' 0]) ! 0) = 2
   \<and> fail_ratio (fst (add_features
       [ev 0 ''u1'' ''d1'' ''10.0.0.1'' ''DE'' 1, ev 30 ''u1'' ''d1'' ''10.0.0.2'' ''DE'' 0,
        ev 90 ''u1'' ''d1'' ''10.0.0.3'' ''DE'' 0]) ! 1) = 1 / 2
   \<and> uniq_ips (fst (add_features
       [ev 0 ''u1'' ''d1'' ''10.0.0.1'' ''DE'' 1, ev 30 ''u1'' ''d1'' ''10.0.0.2'' ''DE'' 0,
        ev 90 ''u1'' ''d1'' ''10.0.0.3'' ''DE'' 0]) ! 1) = 2"
proof -
  let ?df = "[ev 0 ''u1'' ''d1'' ''10.0.0.1'' ''DE'' 1, ev 30 ''u1'' ''d1'' ''10.0.0.2'' ''DE'' 0,
        ev 90 ''u1'' ''d1'' ''10.0.0.3'' ''DE'' 0]"
  have h: "0 < length ?df" "1 < length ?df" "user (?df ! 1) = user (?df ! 0)"
    "floor_min (ts (?df ! 1)) = floor_min (ts (?df ! 0))"
    by (simp_all add: ev_def floor_min_def)
  from window_aggregates [OF h] show ?thesis
    by (simp add: ev_def floor_min_def)
qed

subsection \<open>The cursor of the last success\<close>

lemma add_features_secs:
  "i < length df \<Longrightarrow>
   secs_since_last_success (fst (add_features df) ! i) =
     real_of_int (cursor_value (foldl cursor_step Map.empty (take i df)) (df ! i))"
  by (simp add: add_features_nth cursor_values_nth feature_row_def Let_def)

lemma filter_take_last:
  assumes "k < i" and "i \<le> length xs" and "P (xs ! k)"
    and "\<forall>l. k < l \<and> l < i \<longrightarrow> \<not> P (xs ! l)"
  shows "filter P (take i xs) = filter P (take k xs) @ [xs ! k]"
proof -
  have k: "k < length xs" using assms by simp
  have split: "take i xs = take k xs @ xs ! k # take (i - Suc k) (drop (Suc k) xs)"
  proof -
    have "take i xs = take (k + (i - k)) xs" using assms(1) by simp
    also have "\<dots> = take k xs @ take (i - k) (drop k xs)" by (simp only: take_add)
    also have "drop k xs = xs ! k # drop (Suc k) xs" using k by (simp add: Cons_nth_drop_Suc)
    also have "take (i - k) (xs ! k # drop (Suc k) xs) = xs ! k # take (i - Suc k) (drop (Suc k) xs)"
    proof -
      have "i - k = Suc (i - Suc k)" using assms(1) by simp
      then show ?thesis by simp
    qed
    finally show ?thesis .
  qed
  have "filter P (take (i - Suc k) (drop (Suc k) xs)) = []"
  proof -
    have "\<forall>x \<in> set (take (i - Suc k) (drop (Suc k) xs)). \<not> P x"
    proof
      fix x assume "x \<in> set (take (i - Suc k) (drop (Suc k) xs))"
      then obtain n where n: "n < length (take (i - Suc k) (drop (Suc k) xs))"
        and x: "x = take (i - Suc k) (drop (Suc k) xs) ! n"
        by (auto simp: in_set_conv_nth)
      have "n < i - Suc k" using n by simp
      moreover have "Suc k + n < length xs" using n assms(2) by simp
      ultimately have "x = xs ! (Suc k + n)" using x by simp
      moreover have "k < Suc k + n \<and> Suc k + n < i" using \<open>n < i - Suc k\<close> by simp
      ultimately show "\<not> P x" using assms(4) by blast
    qed
    then show ?thesis by (simp add: filter_empty_conv)
  qed
  then show ?thesis using assms(3) by (simp add: split)
qed

text \<open>Claim C5. For every row \<open>i\<close>, \<open>secs_since_last_success\<close> is 0 when no successful
  login of the row's user precedes it in the pass, and otherwise the row's time minus the
  time of the most recent preceding success of that user (times in whole seconds). The
  dictionary after row \<open>i\<close> is the one before it, updated at the row's user to the row's time
  exactly when the row is successful. In particular, when row \<open>k\<close> is the success of the same
  user that precedes row \<open>i\<close> with no success of that user in between, the value of row \<open>i\<close>
  is the difference of the two times.\<close>

theorem secs_since_last_success_cursor:
  assumes "i < length df"
  shows "secs_since_last_success (fst (add_features df) ! i) =
           (case filter (\<lambda>e. user e = user (df ! i) \<and> success e = 1) (take i df) of
              [] \<Rightarrow> 0
            | p # ps \<Rightarrow> real_of_int (ts_sec_of (ts (df ! i)) - ts_sec_of (ts (last (p # ps)))))
       \<and> fst (cursor_loop Map.empty [] (take (Suc i) df)) =
           (if success (df ! i) = 1
            then (fst (cursor_loop Map.empty [] (take i df)))(user (df ! i) \<mapsto> ts_sec_of (ts (df ! i)))
            else fst (cursor_loop Map.empty [] (take i df)))
       \<and> (\<forall>k<i. user (df ! k) = user (df ! i) \<and> success (df ! k) = 1 \<and>
              (\<forall>l. k < l \<and> l < i \<longrightarrow> \<not> (user (df ! l) = user (df ! i) \<and> success (df ! l) = 1))
            \<longrightarrow> secs_since_last_success (fst (add_features df) ! i) =
                  real_of_int (ts_sec_of (ts (df ! i)) - ts_sec_of (ts (df ! k))))"
proof (intro conjI allI impI)
  let ?P = "\<lambda>e. user e = user (df ! i) \<and> success e = 1"
  show val: "secs_since_last_success (fst (add_features df) ! i) =
           (case filter ?P (take i df) of
              [] \<Rightarrow> 0
            | p # ps \<Rightarrow> real_of_int (ts_sec_of (ts (df ! i)) - ts_sec_of (ts (last (p # ps)))))"
    using assms
    by (simp add: add_features_secs cursor_value_def cursor_state split: list.splits)
  show "fst (cursor_loop Map.empty [] (take (Suc i) df)) =
           (if success (df ! i) = 1
            then (fst (cursor_loop Map.empty [] (take i df)))(user (df ! i) \<mapsto> ts_sec_of (ts (df ! i)))
            else fst (cursor_loop Map.empty [] (take i df)))"
    using assms by (simp add: cursor_loop_eq take_Suc_conv_app_nth cursor_step_def)
  fix k
  assume k: "k < i"
    and h: "user (df ! k) = user (df ! i) \<and> success (df ! k) = 1 \<and>
              (\<forall>l. k < l \<and> l < i \<longrightarrow> \<not> (user (df ! l) = user (df ! i) \<and> success (df ! l) = 1))"
  have eq: "filter ?P (take i df) = filter ?P (take k df) @ [df ! k]"
    using k assms h by (intro filter_take_last) simp_all
  have "filter ?P (take i df) \<noteq> []"
    by (simp only: eq) simp
  then obtain p ps where pp: "filter ?P (take i df) = p # ps"
    by (meson neq_Nil_conv)
  have "last (p # ps) = df ! k"
    using eq pp by (metis last_snoc)
  then show "secs_since_last_success (fst (add_features df) ! i) =
                  real_of_int (ts_sec_of (ts (df ! i)) - ts_sec_of (ts (df ! k)))"
    by (simp add: val pp del: last.simps)
qed

theorem secs_since_last_success_cursor_witness:
  "secs_since_last_success (fst (add_features
       [ev 10 ''u1'' ''d1'' ''10.0.0.1'' ''DE'' 1, ev 20 ''u2'' ''d1'' ''10.0.0.1'' ''DE'' 1,
        ev 70 ''u1'' ''d1'' ''10.0.0.1'' ''DE'' 0, ev 100 ''u1'' ''d1'' ''10.0.0.1'' ''DE'' 1]) ! 3) = 90"
proof -
  let ?df = "[ev 10 ''u1'' ''d1'' ''10.0.0.1'' ''DE'' 1, ev 20 ''u2'' ''d1'' ''10.0.0.1'' ''DE'' 1,
        ev 70 ''u1'' ''d1'' ''10.0.0.1'' ''DE'' 0, ev 100 ''u1'' ''d1'' ''10.0.0.1'' ''DE'' 1]"
  have h: "3 < length ?df" by simp
  have c: "(0::nat) < 3 \<and> user (?df ! 0) = user (?df ! 3) \<and> success (?df ! 0) = 1 \<and>
       (\<forall>l. 0 < l \<and> l < 3 \<longrightarrow> \<not> (user (?df ! l) = user (?df ! 3) \<and> success (?df ! l) = 1))"
    by (auto simp: ev_def less_Suc_eq numeral_3_eq_3)
  from secs_since_last_success_cursor [OF h] c
  have "secs_since_last_success (fst (add_features ?df) ! 3) =
          real_of_int (ts_sec_of (ts (?df ! 3)) - ts_sec_of (ts (?df ! 0)))"
    by blast
  then show ?thesis by (simp add: ev_def ts_sec_of_def)
qed

subsection \<open>Order of the pass\<close>












section \<open>Properties of detect_anomalies\<close>

lemma select_values_length: "select_values cols df = Inr X \<Longrightarrow> length X = length df"
  by (auto simp: select_values_def split: option.splits)

lemma convert_rows_length: "convert_rows X = Inr Xf \<Longrightarrow> length Xf = length X"
  by (induction X arbitrary: Xf) (auto split: sum.splits)

lemma check_array_Inr: "check_array X = Inr Xf \<Longrightarrow> length Xf = length X \<and> Xf \<noteq> []"
  by (auto simp: check_array_def convert_rows_length split: sum.splits if_splits)

text \<open>What a successful run consists of.\<close>
lemma detect_anomalies_Inr:
  assumes "detect_anomalies isf df cols c seed = Inr out"
  obtains X Xf thr where
    "select_values cols df = Inr X" "check_array X = Inr Xf"
    "0 < c" "c \<le> 1 / 2" "0 \<le> seed" "seed \<le> 2 ^ 32 - 1"
    "np_quantile (map (\<lambda>x. - isf 300 c seed Xf x) Xf) (1 - c) = Inr thr"
    "out = map2 (flag_row thr) df (map (\<lambda>x. - isf 300 c seed Xf x) Xf)"
    "length Xf = length df"
proof -
  from assms obtain X where X: "select_values cols df = Inr X"
    by (auto simp: detect_anomalies_def split: sum.splits)
  from assms X obtain sc where sc: "IsolationForest_fit isf 300 c seed X = Inr sc"
    by (auto simp: detect_anomalies_def split: sum.splits)
  then have c: "0 < c" "c \<le> 1 / 2" "0 \<le> seed" "seed \<le> 2 ^ 32 - 1"
    by (auto simp: IsolationForest_fit_def split: if_splits)
  from sc c obtain Xf where Xf: "check_array X = Inr Xf"
    and scdef: "sc = (\<lambda>Y. case check_array Y of Inl e \<Rightarrow> Inl e
              | Inr Yf \<Rightarrow> Inr (map (isf 300 c seed Xf) Yf))"
    by (auto simp: IsolationForest_fit_def split: if_splits sum.splits)
  have ss: "sc X = Inr (map (isf 300 c seed Xf) Xf)"
    by (simp add: scdef Xf)
  from assms X sc ss obtain thr where
    thr: "np_quantile (map uminus (map (isf 300 c seed Xf) Xf)) (1 - c) = Inr thr"
    and out: "out = map2 (flag_row thr) df (map uminus (map (isf 300 c seed Xf) Xf))"
    by (auto simp: detect_anomalies_def Let_def split: sum.splits)
  have m: "map uminus (map (isf 300 c seed Xf) Xf) = map (\<lambda>x. - isf 300 c seed Xf x) Xf"
    by simp
  have len: "length Xf = length df"
    using check_array_Inr [OF Xf] select_values_length [OF X] by simp
  show thesis
    using that [OF X Xf c thr [unfolded m] out [unfolded m] len] .
qed

lemma detect_anomalies_length:
  "detect_anomalies isf df cols c seed = Inr out \<Longrightarrow> length out = length df"
  by (erule detect_anomalies_Inr) simp

lemma detect_anomalies_nth:
  assumes "detect_anomalies isf df cols c seed = Inr out" and "i < length df"
  obtains thr score where "out ! i = flag_row thr (df ! i) score"
  using assms by (elim detect_anomalies_Inr) simp

lemma flag_row_simps:
  "rule_flag (flag_row thr r s) = rule r"
  "ml_flag (flag_row thr r s) = (if s \<ge> thr then 1 else 0)"
  "anomaly_score (flag_row thr r s) = s"
  "final_flag (flag_row thr r s) = (if s \<ge> thr then 1 else 0) OR rule r"
  "feat_row.truncate (flag_row thr r s) = r"
  by (simp_all add: flag_row_def Let_def feat_row.defs scored_row.defs)

lemma convert_cells_Num: "convert_cells (map Num xs) = Inr xs"
  by (induction xs) simp_all

lemma convert_rows_Num: "convert_rows (map (\<lambda>r. map Num (g r)) df) = Inr (map g df)"
  by (induction df) (simp_all add: convert_cells_Num)

lemma select_values_feat_cols:
  "select_values feat_cols df = Inr (map (\<lambda>r. map Num (feat_vector r)) df)"
  by (simp add: select_values_def feat_cols_def columns_def feat_vector_def)

lemma check_array_feat:
  "check_array (map (\<lambda>r. map Num (feat_vector r)) df) =
     (if df = [] then Inl InvalidConfiguration else Inr (map feat_vector df))"
proof (cases df)
  case Nil
  then show ?thesis by (simp add: check_array_def)
next
  case (Cons r rs)
  have "\<not> list_all (list_all is_time) (map (\<lambda>r. map Num (feat_vector r)) df)"
    by (simp add: Cons feat_vector_def)
  then show ?thesis
    by (simp add: check_array_def convert_rows_Num) (simp add: Cons feat_vector_def)
qed

lemma detect_anomalies_fails:
  "c \<le> 0 \<or> 1 / 2 < c \<or> df = [] \<or> seed < 0 \<or> 2 ^ 32 \<le> seed \<Longrightarrow>
   detect_anomalies isf df feat_cols c seed = Inl InvalidConfiguration"
  by (auto simp: detect_anomalies_def select_values_feat_cols IsolationForest_fit_def
      check_array_feat)

lemma detect_anomalies_succeeds:
  assumes "0 < c" and "c \<le> 1 / 2" and "df \<noteq> []" and "0 \<le> seed" and "seed < 2 ^ 32"
  shows "\<exists>out. detect_anomalies isf df feat_cols c seed = Inr out"
proof -
  let ?scores = "map uminus (map (isf 300 c seed (map feat_vector df)) (map feat_vector df))"
  have "?scores \<noteq> []" using assms(3) by simp
  moreover have "0 \<le> 1 - c \<and> 1 - c \<le> 1" using assms by simp
  ultimately obtain thr where "np_quantile ?scores (1 - c) = Inr thr"
    by (auto simp: np_quantile_def Let_def)
  then show ?thesis
    using assms
    by (simp add: detect_anomalies_def select_values_feat_cols IsolationForest_fit_def
        check_array_feat Let_def)
qed

text \<open>Claim C2 as stated fails: a contamination rate of 0.7 lies strictly between 0 and 1,
  the batch is non-empty, and the run ends in the error.\<close>

theorem contamination_range_counterexample:
  "detect_anomalies demo_scorer
     (fst (add_features [ev 0 ''u1'' ''d1'' ''10.0.0.1'' ''DE'' 1])) feat_cols (7 / 10) 0
   = Inl InvalidConfiguration"
  by (rule detect_anomalies_fails) simp

text \<open>Claim C2, amended. With the feature columns of \<open>add_features\<close>, the run fails with
  \<open>InvalidConfiguration\<close>, producing no output, whenever the contamination rate is at most 0
  or above 0.5, or the batch is empty, or the seed lies outside the range from 0 to
  \<open>2^32 - 1\<close>; for every rate above 0 and up to 0.5, every non-empty batch and every seed in
  that range it succeeds, with one output row per input row.\<close>

theorem invalid_configuration:
  "(c \<le> 0 \<or> 1 / 2 < c \<or> df = [] \<or> seed < 0 \<or> 2 ^ 32 \<le> seed \<longrightarrow>
      detect_anomalies isf df feat_cols c seed = Inl InvalidConfiguration)
   \<and> (0 < c \<and> c \<le> 1 / 2 \<and> df \<noteq> [] \<and> 0 \<le> seed \<and> seed < 2 ^ 32 \<longrightarrow>
      (\<exists>out. detect_anomalies isf df feat_cols c seed = Inr out \<and> length out = length df))"
proof (intro conjI impI)
  assume "c \<le> 0 \<or> 1 / 2 < c \<or> df = [] \<or> seed < 0 \<or> 2 ^ 32 \<le> seed"
  then show "detect_anomalies isf df feat_cols c seed = Inl InvalidConfiguration"
    by (rule detect_anomalies_fails)
next
  assume "0 < c \<and> c \<le> 1 / 2 \<and> df \<noteq> [] \<and> 0 \<le> seed \<and> seed < 2 ^ 32"
  then obtain out where out: "detect_anomalies isf df feat_cols c seed = Inr out"
    using detect_anomalies_succeeds by blast
  then have "length out = length df" by (rule detect_anomalies_length)
  with out show "\<exists>out. detect_anomalies isf df feat_cols c seed = Inr out \<and> length out = length df"
    by blast
qed

theorem invalid_configuration_witness:
  "detect_anomalies demo_scorer
     (fst (add_features [ev 0 ''u1'' ''d1'' ''10.0.0.1'' ''DE'' 1])) feat_cols 0 0
     = Inl InvalidConfiguration
   \<and> detect_anomalies demo_scorer [] feat_cols (1 / 50) 0 = Inl InvalidConfiguration
   \<and> detect_anomalies demo_scorer
     (fst (add_features [ev 0 ''u1'' ''d1'' ''10.0.0.1'' ''DE'' 1])) feat_cols (1 / 50) (- 1)
     = Inl InvalidConfiguration
   \<and> (\<exists>out. detect_anomalies demo_scorer
        (fst (add_features [ev 0 ''u1'' ''d1'' ''10.0.0.1'' ''DE'' 1])) feat_cols (1 / 50) 0
        = Inr out \<and> length out = 1)
   \<and> (\<exists>out. detect_anomalies demo_scorer
        (fst (add_features [ev 0 ''u1'' ''d1'' ''10.0.0.1'' ''DE'' 1])) feat_cols (1 / 2) (2 ^ 32 - 1)
        = Inr out \<and> length out = 1)"
proof -
  let ?df = "fst (add_features [ev 0 ''u1'' ''d1'' ''10.0.0.1'' ''DE'' 1])"
  have ne: "?df \<noteq> []" and len: "length ?df = 1"
    using add_features_length [of "[ev 0 ''u1'' ''d1'' ''10.0.0.1'' ''DE'' 1]"] by auto
  have a: "detect_anomalies demo_scorer ?df feat_cols 0 0 = Inl InvalidConfiguration"
    using invalid_configuration [of 0 ?df 0 demo_scorer] by simp
  have b: "detect_anomalies demo_scorer [] feat_cols (1 / 50) 0 = Inl InvalidConfiguration"
    using invalid_configuration [of "1 / 50" "[]" 0 demo_scorer] by simp
  have c: "detect_anomalies demo_scorer ?df feat_cols (1 / 50) (- 1) = Inl InvalidConfiguration"
    using invalid_configuration [of "1 / 50" ?df "- 1" demo_scorer] by simp
  have d: "\<exists>out. detect_anomalies demo_scorer ?df feat_cols (1 / 50) 0 = Inr out \<and> length out = 1"
    using invalid_configuration [of "1 / 50" ?df 0 demo_scorer] ne len by simp
  have e: "\<exists>out. detect_anomalies demo_scorer ?df feat_cols (1 / 2) (2 ^ 32 - 1) = Inr out \<and> length out = 1"
    using invalid_configuration [of "1 / 2" ?df "2 ^ 32 - 1" demo_scorer] ne len by simp
  from a b c d e show ?thesis by blast
qed

lemma map_anomaly_score_flag_row:
  "length xs = length ys \<Longrightarrow> map anomaly_score (map2 (flag_row thr) xs ys) = ys"
  by (rule nth_equalityI) (simp_all add: flag_row_simps)

lemma or_flag: "(if a then (1::int) else 0) OR (if b then 1 else 0) = (if a \<or> b then 1 else 0)"
  by simp

lemma rule_01: "rule r = (if fail_ratio r > 8 / 10 \<and> uniq_ips r \<ge> 5 then 1 else 0)"
  by (simp add: rule_def)

text \<open>Claim C3. For every successful run the output has one row per input row; the
  threshold \<open>T\<close> is the value at the \<open>1 - c\<close> quantile of the anomaly scores by linear
  interpolation (position \<open>(1 - c) * (N - 1)\<close> of the sorted scores, between its two
  neighbours); for every row \<open>ml_flag\<close> is 1 exactly when the score is at least \<open>T\<close>, and
  \<open>final_flag\<close> is 1 exactly when \<open>ml_flag\<close> is 1 or \<open>rule_flag\<close> is 1; both flags are 0
  or 1.\<close>

theorem threshold_and_flags:
  assumes "detect_anomalies isf df cols c seed = Inr out"
  shows "length out = length df \<and>
    (\<exists>T. T = (let s = sort (map anomaly_score out);
                  h = (1 - c) * real (length out - 1);
                  lo = nat \<lfloor>h\<rfloor>;
                  hi = min (lo + 1) (length out - 1)
              in s ! lo + (h - real lo) * (s ! hi - s ! lo))
       \<and> (\<forall>i<length out.
             (ml_flag (out ! i) = 1 \<longleftrightarrow> T \<le> anomaly_score (out ! i))
           \<and> ml_flag (out ! i) \<in> {0, 1}
           \<and> (final_flag (out ! i) = 1 \<longleftrightarrow> ml_flag (out ! i) = 1 \<or> rule_flag (out ! i) = 1)
           \<and> final_flag (out ! i) \<in> {0, 1}))"
proof -
  from assms obtain X Xf thr where
    q: "np_quantile (map (\<lambda>x. - isf 300 c seed Xf x) Xf) (1 - c) = Inr thr"
    and out: "out = map2 (flag_row thr) df (map (\<lambda>x. - isf 300 c seed Xf x) Xf)"
    and len: "length Xf = length df"
    by (rule detect_anomalies_Inr)
  let ?scores = "map (\<lambda>x. - isf 300 c seed Xf x) Xf"
  have lo: "length out = length df" using out len by simp
  have sc: "map anomaly_score out = ?scores"
    unfolding out using len by (intro map_anomaly_score_flag_row) simp
  have thr: "thr = (let s = sort (map anomaly_score out);
                  h = (1 - c) * real (length out - 1);
                  lo = nat \<lfloor>h\<rfloor>;
                  hi = min (lo + 1) (length out - 1)
              in s ! lo + (h - real lo) * (s ! hi - s ! lo))"
    using q unfolding sc lo
    by (auto simp: np_quantile_def Let_def len split: if_splits)
  have rows: "\<forall>i<length out.
             (ml_flag (out ! i) = 1 \<longleftrightarrow> thr \<le> anomaly_score (out ! i))
           \<and> ml_flag (out ! i) \<in> {0, 1}
           \<and> (final_flag (out ! i) = 1 \<longleftrightarrow> ml_flag (out ! i) = 1 \<or> rule_flag (out ! i) = 1)
           \<and> final_flag (out ! i) \<in> {0, 1}"
  proof (intro allI impI)
    fix i assume "i < length out"
    then have i: "i < length df" "i < length Xf" using lo len by simp_all
    have oi: "out ! i = flag_row thr (df ! i) (?scores ! i)"
      unfolding out using i by simp
    show "(ml_flag (out ! i) = 1 \<longleftrightarrow> thr \<le> anomaly_score (out ! i))
           \<and> ml_flag (out ! i) \<in> {0, 1}
           \<and> (final_flag (out ! i) = 1 \<longleftrightarrow> ml_flag (out ! i) = 1 \<or> rule_flag (out ! i) = 1)
           \<and> final_flag (out ! i) \<in> {0, 1}"
      unfolding oi flag_row_simps rule_01 or_flag by simp
  qed
  from lo thr rows show ?thesis by blast
qed

text \<open>Claim C7. In every successful run, \<open>rule_flag\<close> of a row is 1 exactly when its
  \<open>fail_ratio\<close> exceeds 0.8 and its \<open>uniq_ips\<close> is at least 5, and 0 otherwise. It is a
  function of these two fields of the row alone: a row of any other run (another batch,
  forest, seed or contamination rate) with the same two values has the same flag.\<close>

theorem rule_flag_stateless:
  assumes "detect_anomalies isf df cols c seed = Inr out"
    and "detect_anomalies isf' df' cols' c' seed' = Inr out'"
    and "i < length df" and "j < length df'"
    and "fail_ratio (df' ! j) = fail_ratio (df ! i)"
    and "uniq_ips (df' ! j) = uniq_ips (df ! i)"
  shows "rule_flag (out ! i) = (if fail_ratio (df ! i) > 8 / 10 \<and> uniq_ips (df ! i) \<ge> 5 then 1 else 0)
       \<and> fail_ratio (out ! i) = fail_ratio (df ! i)
       \<and> uniq_ips (out ! i) = uniq_ips (df ! i)
       \<and> rule_flag (out' ! j) = rule_flag (out ! i)"
proof -
  obtain thr s where a: "out ! i = flag_row thr (df ! i) s"
    using assms(1,3) by (rule detect_anomalies_nth)
  obtain thr' s' where b: "out' ! j = flag_row thr' (df' ! j) s'"
    using assms(2,4) by (rule detect_anomalies_nth)
  have f: "fail_ratio (flag_row thr (df ! i) s) = fail_ratio (df ! i)"
    "uniq_ips (flag_row thr (df ! i) s) = uniq_ips (df ! i)"
    by (simp_all add: flag_row_def Let_def feat_row.defs scored_row.defs)
  show ?thesis
    unfolding a b flag_row_simps f rule_01 using assms(5,6) by simp
qed

lemma detect_anomalies_scores:
  assumes "detect_anomalies isf df feat_cols c seed = Inr out"
  shows "map anomaly_score out =
         map (\<lambda>r. - isf 300 c seed (map feat_vector df) (feat_vector r)) df"
proof -
  from assms obtain X Xf thr where
    X: "select_values feat_cols df = Inr X" and Xf: "check_array X = Inr Xf"
    and out: "out = map2 (flag_row thr) df (map (\<lambda>x. - isf 300 c seed Xf x) Xf)"
    and len: "length Xf = length df"
    by (rule detect_anomalies_Inr)
  have eq: "Xf = map feat_vector df"
    using X Xf by (auto simp: select_values_feat_cols check_array_feat split: if_splits)
  have "map anomaly_score out = map (\<lambda>x. - isf 300 c seed Xf x) Xf"
    unfolding out using len by (intro map_anomaly_score_flag_row) simp
  then show ?thesis by (simp add: eq comp_def)
qed

lemma demo_batch_attempts:
  "map attempts (fst (add_features
     [ev 0 ''u1'' ''d1'' ''10.0.0.1'' ''DE'' 1, ev 30 ''u1'' ''d1'' ''10.0.0.2'' ''DE'' 0,
      ev 90 ''u1'' ''d1'' ''10.0.0.3'' ''DE'' 0])) = [2, 2, 1]"
  by code_simp

theorem threshold_and_flags_witness:
  "\<exists>out. detect_anomalies demo_scorer (fst (add_features
     [ev 0 ''u1'' ''d1'' ''10.0.0.1'' ''DE'' 1, ev 30 ''u1'' ''d1'' ''10.0.0.2'' ''DE'' 0,
      ev 90 ''u1'' ''d1'' ''10.0.0.3'' ''DE'' 0])) feat_cols (1 / 2) 0 = Inr out
    \<and> map anomaly_score out = [2 / 10, 2 / 10, 1 / 10]
    \<and> ml_flag (out ! 0) = 1 \<and> ml_flag (out ! 2) \<noteq> 1"
proof -
  let ?df = "fst (add_features
     [ev 0 ''u1'' ''d1'' ''10.0.0.1'' ''DE'' 1, ev 30 ''u1'' ''d1'' ''10.0.0.2'' ''DE'' 0,
      ev 90 ''u1'' ''d1'' ''10.0.0.3'' ''DE'' 0])"
  have len: "length ?df = 3" by (simp add: add_features_length)
  then have "?df \<noteq> []" by auto
  then obtain out where run: "detect_anomalies demo_scorer ?df feat_cols (1 / 2) 0 = Inr out"
    using detect_anomalies_succeeds [of "1 / 2" ?df 0 demo_scorer] by auto
  have "map anomaly_score out = map (\<lambda>r. real (attempts r) / 10) ?df"
    using detect_anomalies_scores [OF run] by (simp add: demo_scorer_def feat_vector_def)
  also have "\<dots> = map (\<lambda>a. real a / 10) (map attempts ?df)" by (simp add: comp_def)
  also have "\<dots> = [2 / 10, 2 / 10, 1 / 10]" by (simp only: demo_batch_attempts) simp
  finally have sc: "map anomaly_score out = [2 / 10, 2 / 10, 1 / 10]" .
  have lo: "length out = 3" using arg_cong [OF sc, of length] by simp
  have s0: "anomaly_score (out ! 0) = 2 / 10" and s2: "anomaly_score (out ! 2) = 1 / 10"
    using arg_cong [OF sc, of "\<lambda>l. l ! 0"] arg_cong [OF sc, of "\<lambda>l. l ! 2"] lo by simp_all
  from threshold_and_flags [OF run] have
    "\<forall>i<length out. (ml_flag (out ! i) = 1 \<longleftrightarrow>
        (let s = sort (map anomaly_score out);
                  h = (1 - 1 / 2) * real (length out - 1);
                  lo = nat \<lfloor>h\<rfloor>;
                  hi = min (lo + 1) (length out - 1)
              in s ! lo + (h - real lo) * (s ! hi - s ! lo)) \<le> anomaly_score (out ! i))"
    by blast
  then have "\<forall>i<3. (ml_flag (out ! i) = 1 \<longleftrightarrow> 2 / 10 \<le> anomaly_score (out ! i))"
    unfolding sc lo by (simp add: Let_def)
  then have "ml_flag (out ! 0) = 1 \<and> ml_flag (out ! 2) \<noteq> 1"
    using s0 s2 by simp
  with run sc show ?thesis by (intro exI [of _ out]) simp
qed

lemma demo_burst:
  "fail_ratio (fst (add_features
     [ev 0 ''u1'' ''d1'' ''10.0.0.1'' ''DE'' 0, ev 1 ''u1'' ''d1'' ''10.0.0.2'' ''DE'' 0,
      ev 2 ''u1'' ''d1'' ''10.0.0.3'' ''DE'' 0, ev 3 ''u1'' ''d1'' ''10.0.0.4'' ''DE'' 0,
      ev 4 ''u1'' ''d1'' ''10.0.0.5'' ''DE'' 0]) ! 0) = 1"
  "uniq_ips (fst (add_features
     [ev 0 ''u1'' ''d1'' ''10.0.0.1'' ''DE'' 0, ev 1 ''u1'' ''d1'' ''10.0.0.2'' ''DE'' 0,
      ev 2 ''u1'' ''d1'' ''10.0.0.3'' ''DE'' 0, ev 3 ''u1'' ''d1'' ''10.0.0.4'' ''DE'' 0,
      ev 4 ''u1'' ''d1'' ''10.0.0.5'' ''DE'' 0]) ! 0) = 5"
  by code_simp+

theorem rule_flag_stateless_witness:
  "\<exists>out. detect_anomalies demo_scorer (fst (add_features
     [ev 0 ''u1'' ''d1'' ''10.0.0.1'' ''DE'' 0, ev 1 ''u1'' ''d1'' ''10.0.0.2'' ''DE'' 0,
      ev 2 ''u1'' ''d1'' ''10.0.0.3'' ''DE'' 0, ev 3 ''u1'' ''d1'' ''10.0.0.4'' ''DE'' 0,
      ev 4 ''u1'' ''d1'' ''10.0.0.5'' ''DE'' 0])) feat_cols (1 / 50) 0 = Inr out
    \<and> rule_flag (out ! 0) = 1"
proof -
  let ?df = "fst (add_features
     [ev 0 ''u1'' ''d1'' ''10.0.0.1'' ''DE'' 0, ev 1 ''u1'' ''d1'' ''10.0.0.2'' ''DE'' 0,
      ev 2 ''u1'' ''d1'' ''10.0.0.3'' ''DE'' 0, ev 3 ''u1'' ''d1'' ''10.0.0.4'' ''DE'' 0,
      ev 4 ''u1'' ''d1'' ''10.0.0.5'' ''DE'' 0])"
  have len: "length ?df = 5" by (simp add: add_features_length)
  then have ne: "?df \<noteq> []" and i: "0 < length ?df" by auto
  obtain out where run: "detect_anomalies demo_scorer ?df feat_cols (1 / 50) 0 = Inr out"
    using detect_anomalies_succeeds [of "1 / 50" ?df 0 demo_scorer] ne by auto
  from rule_flag_stateless [OF run run i i refl refl]
  have "rule_flag (out ! 0) = 1"
    by (simp only: demo_burst) simp
  with run show ?thesis by (intro exI [of _ out]) simp
qed

section \<open>Frame effects\<close>

lemma add_features_st_frame:
  assumes "a < length s"
  shows "fst (add_features_st s df) ! a = s ! a"
  using assms
  by (auto simp: add_features_st_def frame_copy_def alloc_def assign_def Let_def nth_append
      split: frame.splits prod.splits)

lemma detect_anomalies_st_frame:
  assumes "a < length s"
  shows "fst (detect_anomalies_st isf s df cols c seed) ! a = s ! a"
  using assms
  by (auto simp: detect_anomalies_st_def frame_copy_def alloc_def assign_def Let_def nth_append
      split: frame.splits prod.splits sum.splits)

text \<open>The store model computes what the functional model computes: the frame at the
  returned address holds the rows of \<open>add_features\<close>, respectively of \<open>detect_anomalies\<close>.\<close>

lemma add_features_st_result:
  assumes "df < length s" and "s ! df = Events rows"
  shows "\<exists>s' out. add_features_st s df = (s', Inr (out, feat_cols)) \<and> length s \<le> out \<and>
           out < length s' \<and> s' ! out = Features (fst (add_features rows))"
proof -
  have len: "length (cursor_values Map.empty rows) = length rows"
    by (rule length_cursor_values)
  show ?thesis
    using assms
    apply (simp add: add_features_st_def frame_copy_def alloc_def assign_def Let_def nth_append
        split: prod.splits)
    apply (simp add: add_features_def Let_def cursor_loop_eq)
    apply (rule nth_equalityI)
     apply (simp add: len)
    apply (simp add: len feature_row_def Let_def blank_def login_event.defs feat_row.defs)
    done
qed

lemma scored_rows_eq:
  assumes "length rows = length scores"
  shows "map (\<lambda>r. r\<lparr>final_flag := ml_flag r OR rule_flag r\<rparr>)
           (map (\<lambda>r. r\<lparr>rule_flag := rule r\<rparr>)
             (map (\<lambda>r. r\<lparr>ml_flag := (if anomaly_score r \<ge> thr then 1 else 0)\<rparr>)
               (map2 (\<lambda>r v. (blank_scored r)\<lparr>anomaly_score := v\<rparr>) rows scores)))
         = map2 (flag_row thr) rows scores"
  using assms
  by (intro nth_equalityI)
     (simp_all add: flag_row_def Let_def blank_scored_def rule_def feat_row.defs scored_row.defs)

lemma detect_anomalies_st_result:
  assumes "df < length s" and "s ! df = Features rows"
  shows "case detect_anomalies isf rows cols c seed of
           Inl e \<Rightarrow> snd (detect_anomalies_st isf s df cols c seed) = Inl e
         | Inr out \<Rightarrow>
             snd (detect_anomalies_st isf s df cols c seed) = Inr (length s) \<and>
             fst (detect_anomalies_st isf s df cols c seed) ! length s = Scored out"
proof (cases "detect_anomalies isf rows cols c seed")
  case (Inl e)
  then show ?thesis
    using assms
    by (auto simp: detect_anomalies_def detect_anomalies_st_def Let_def frame_copy_def alloc_def
        split: sum.splits prod.splits)
next
  case (Inr out)
  then obtain X Xf thr where
    X: "select_values cols rows = Inr X" and Xf: "check_array X = Inr Xf"
    and c: "0 < c" "c \<le> 1 / 2" "0 \<le> seed" "seed \<le> 2 ^ 32 - 1"
    and q: "np_quantile (map (\<lambda>x. - isf 300 c seed Xf x) Xf) (1 - c) = Inr thr"
    and out: "out = map2 (flag_row thr) rows (map (\<lambda>x. - isf 300 c seed Xf x) Xf)"
    and len: "length Xf = length rows"
    by (rule detect_anomalies_Inr)
  have fit: "IsolationForest_fit isf 300 c seed X =
      Inr (\<lambda>Y. case check_array Y of Inl e \<Rightarrow> Inl e
              | Inr Yf \<Rightarrow> Inr (map (isf 300 c seed Xf) Yf))"
    using c Xf by (simp add: IsolationForest_fit_def)
  have m: "map uminus (map (isf 300 c seed Xf) Xf) = map (\<lambda>x. - isf 300 c seed Xf x) Xf"
    by simp
  have eq: "map (\<lambda>r. r\<lparr>final_flag := ml_flag r OR rule_flag r\<rparr>)
           (map (\<lambda>r. r\<lparr>rule_flag := rule r\<rparr>)
             (map (\<lambda>r. r\<lparr>ml_flag := (if anomaly_score r \<ge> thr then 1 else 0)\<rparr>)
               (map2 (\<lambda>r v. (blank_scored r)\<lparr>anomaly_score := v\<rparr>) rows
                  (map (\<lambda>x. - isf 300 c seed Xf x) Xf)))) = out"
    unfolding out using len by (intro scored_rows_eq) simp
  have "detect_anomalies_st isf s df cols c seed =
        ((s @ [s ! df])[length s := Scored out], Inr (length s))"
    using assms
    by (simp add: detect_anomalies_st_def X fit Xf m q Let_def frame_copy_def alloc_def
        assign_def eq del: map_map)
  then show ?thesis
    by (simp add: Inr)
qed

text \<open>Claim C10. Neither call changes a frame that existed before it: after
  \<open>add_features\<close> and after \<open>detect_anomalies\<close>, whether the call returned or failed, every
  address of the store before the call, the caller's frame in particular, holds the same
  rows with the same fields. The frame that is returned lies at a new address: the
  enrichment is done on copies.\<close>

theorem caller_frame_unchanged:
  assumes "a < length s"
  shows "fst (add_features_st s df) ! a = s ! a
       \<and> (\<forall>out cols. snd (add_features_st s df) = Inr (out, cols) \<longrightarrow> length s \<le> out)
       \<and> fst (detect_anomalies_st isf s df_feat cols c seed) ! a = s ! a
       \<and> (\<forall>out. snd (detect_anomalies_st isf s df_feat cols c seed) = Inr out \<longrightarrow> length s \<le> out)"
proof (intro conjI allI impI)
  show "fst (add_features_st s df) ! a = s ! a"
    using assms by (rule add_features_st_frame)
  show "fst (detect_anomalies_st isf s df_feat cols c seed) ! a = s ! a"
    using assms by (rule detect_anomalies_st_frame)
next
  fix out cols
  assume "snd (add_features_st s df) = Inr (out, cols)"
  then show "length s \<le> out"
    by (auto simp: add_features_st_def frame_copy_def alloc_def assign_def Let_def
        split: frame.splits prod.splits if_splits)
next
  fix out
  assume "snd (detect_anomalies_st isf s df_feat cols c seed) = Inr out"
  then show "length s \<le> out"
    by (auto simp: detect_anomalies_st_def frame_copy_def alloc_def assign_def Let_def
        split: frame.splits prod.splits if_splits sum.splits)
qed

theorem caller_frame_unchanged_witness:
  "fst (add_features_st [Events [ev 0 ''u1'' ''d1'' ''10.0.0.1'' ''DE'' 1]] 0) ! 0
     = Events [ev 0 ''u1'' ''d1'' ''10.0.0.1'' ''DE'' 1]
   \<and> fst (detect_anomalies_st demo_scorer
        [Features (fst (add_features [ev 0 ''u1'' ''d1'' ''10.0.0.1'' ''DE'' 1]))] 0
        feat_cols (1 / 50) 0) ! 0
     = Features (fst (add_features [ev 0 ''u1'' ''d1'' ''10.0.0.1'' ''DE'' 1]))"
proof -
  have h: "0 < length [Events [ev 0 ''u1'' ''d1'' ''10.0.0.1'' ''DE'' 1]]" by simp
  have h': "0 < length [Features (fst (add_features [ev 0 ''u1'' ''d1'' ''10.0.0.1'' ''DE'' 1]))]"
    by simp
  from caller_frame_unchanged [OF h, of 0 demo_scorer 0 feat_cols "1 / 50" 0]
    caller_frame_unchanged [OF h', of 0 demo_scorer 0 feat_cols "1 / 50" 0]
  show ?thesis by simp
qed

section \<open>Scores of the forest\<close>

lemma ln_2_ge_half: "1 / 2 \<le> ln (2::real)"
proof -
  have "ln (1 / 2 :: real) \<le> 1 / 2 - 1"
    by (rule ln_le_minus_one) simp
  moreover have "ln (1 / 2 :: real) = - ln 2"
    by (simp add: ln_div)
  ultimately show ?thesis by simp
qed

lemma c_norm_pos:
  assumes "2 \<le> m"
  shows "0 < c_norm m"
proof (cases "m = 2")
  case True
  then show ?thesis by (simp add: c_norm_def harmonic_def)
next
  case False
  with assms have m: "3 \<le> m" by simp
  then have l: "ln 2 \<le> ln (real (m - 1))"
    by (subst ln_le_cancel_iff) auto
  have hm: "harmonic (m - 1) = ln (real (m - 1)) + 5772 / 10000"
    using m unfolding harmonic_def by auto
  have h: "1 / 2 + 5772 / 10000 \<le> harmonic (m - 1)"
    using l ln_2_ge_half hm by linarith
  have "real (m - 1) \<le> real m" by simp
  then have "real (m - 1) / real m \<le> 1" using m by (simp add: divide_le_eq)
  then have d: "2 * (real (m - 1) / real m) \<le> 2" by linarith
  have cm: "c_norm m = 2 * harmonic (m - 1) - 2 * (real (m - 1) / real m)"
    using m unfolding c_norm_def by auto
  show ?thesis using h d cm by linarith
qed

lemma c_norm_nonneg: "0 \<le> c_norm m"
proof (cases "2 \<le> m")
  case True
  then show ?thesis using c_norm_pos [of m] by simp
next
  case False
  then show ?thesis by (simp add: c_norm_def)
qed

lemma path_length_nonneg: "0 \<le> path_length x t"
  by (induction t) (simp_all add: c_norm_nonneg)

lemma avg_path_length_nonneg: "0 \<le> avg_path_length F x"
proof -
  have "0 \<le> sum_list (map (path_length x) (trees F))"
    by (rule sum_list_nonneg) (auto simp: path_length_nonneg)
  then show ?thesis by (simp add: avg_path_length_def)
qed

lemma score_point_range:
  assumes "2 \<le> subsample_size F"
  shows "0 < score_point F x \<and> score_point F x \<le> 1"
proof -
  have c: "0 < c_norm (subsample_size F)" using assms by (rule c_norm_pos)
  have e: "- avg_path_length F x / c_norm (subsample_size F) \<le> 0"
    using avg_path_length_nonneg [of F x] c by (simp add: divide_nonpos_pos)
  have "(2::real) powr (- avg_path_length F x / c_norm (subsample_size F)) \<le> 2 powr 0"
    using e by (intro powr_mono) simp_all
  then show ?thesis by (simp add: score_point_def)
qed

text \<open>Claim C9. For every forest with at least one tree and a subsample size of at least 2
  (what a valid configuration yields) and every batch of \<open>N\<close> vectors, scoring returns exactly
  \<open>N\<close> scores, the \<open>i\<close>-th one for the \<open>i\<close>-th vector; each is 2 to the power of minus the
  average path length over \<open>c\<close> of the subsample size, and lies above 0 and at most at 1.
  With such a forest behind \<^verbatim>\<open>score_samples\<close>, every successful run of \<open>detect_anomalies\<close>
  yields one anomaly score per input row, in input order, each in that interval.\<close>

theorem score_range:
  assumes "trees F \<noteq> []" and "2 \<le> subsample_size F"
  shows "length (score_forest F vectors) = length vectors
       \<and> (\<forall>i<length vectors.
            score_forest F vectors ! i =
              2 powr (- avg_path_length F (vectors ! i) / c_norm (subsample_size F))
          \<and> 0 < score_forest F vectors ! i
          \<and> score_forest F vectors ! i \<le> 1)
       \<and> (\<forall>out. detect_anomalies (forest_scorer F) df feat_cols c seed = Inr out \<longrightarrow>
            length out = length df
          \<and> (\<forall>i<length df.
               anomaly_score (out ! i) = score_point F (feat_vector (df ! i))
             \<and> 0 < anomaly_score (out ! i)
             \<and> anomaly_score (out ! i) \<le> 1))"
proof (intro conjI allI impI)
  show "length (score_forest F vectors) = length vectors"
    by (simp add: score_forest_def)
next
  fix i assume i: "i < length vectors"
  show f: "score_forest F vectors ! i =
          2 powr (- avg_path_length F (vectors ! i) / c_norm (subsample_size F))"
    using i by (simp add: score_forest_def score_point_def)
  have g: "score_forest F vectors ! i = score_point F (vectors ! i)"
    using i by (simp add: score_forest_def)
  show "0 < score_forest F vectors ! i" "score_forest F vectors ! i \<le> 1"
    using score_point_range [OF assms(2), of "vectors ! i"] by (simp_all add: g)
next
  fix out assume run: "detect_anomalies (forest_scorer F) df feat_cols c seed = Inr out"
  show len: "length out = length df" using run by (rule detect_anomalies_length)
  fix i assume i: "i < length df"
  have "map anomaly_score out ! i = score_point F (feat_vector (df ! i))"
    using i by (simp add: detect_anomalies_scores [OF run] forest_scorer_def)
  then show a: "anomaly_score (out ! i) = score_point F (feat_vector (df ! i))"
    using i len by simp
  show "0 < anomaly_score (out ! i)" "anomaly_score (out ! i) \<le> 1"
    using score_point_range [OF assms(2), of "feat_vector (df ! i)"] by (simp_all add: a)
qed

theorem score_range_witness:
  "length (score_forest \<lparr>trees = [Node 0 (1 / 2) (Leaf 1) (Leaf 3)], subsample_size = 4\<rparr>
      [[0], [1]]) = 2
   \<and> 0 < score_forest \<lparr>trees = [Node 0 (1 / 2) (Leaf 1) (Leaf 3)], subsample_size = 4\<rparr>
      [[0], [1]] ! 1
   \<and> score_forest \<lparr>trees = [Node 0 (1 / 2) (Leaf 1) (Leaf 3)], subsample_size = 4\<rparr>
      [[0], [1]] ! 1 \<le> 1
   \<and> (\<exists>out. detect_anomalies
          (forest_scorer \<lparr>trees = [Node 0 (1 / 2) (Leaf 1) (Leaf 3)], subsample_size = 4\<rparr>)
          (fst (add_features [ev 0 ''u1'' ''d1'' ''10.0.0.1'' ''DE'' 1])) feat_cols (1 / 50) 0
          = Inr out
        \<and> 0 < anomaly_score (out ! 0) \<and> anomaly_score (out ! 0) \<le> 1)"
proof -
  let ?F = "\<lparr>trees = [Node 0 (1 / 2) (Leaf 1) (Leaf 3)], subsample_size = 4\<rparr>"
  let ?df = "fst (add_features [ev 0 ''u1'' ''d1'' ''10.0.0.1'' ''DE'' 1])"
  have h: "trees ?F \<noteq> []" "2 \<le> subsample_size ?F" by simp_all
  have i: "1 < length [[0::real], [1]]" by simp
  have len: "length ?df = 1" by (simp add: add_features_length)
  then have ne: "?df \<noteq> []" and j: "0 < length ?df" by auto
  obtain out where run: "detect_anomalies (forest_scorer ?F) ?df feat_cols (1 / 50) 0 = Inr out"
    using detect_anomalies_succeeds [of "1 / 50" ?df 0 "forest_scorer ?F"] ne by auto
  note t = score_range [OF h, of "[[0], [1]]" ?df "1 / 50" 0]
  have a: "length (score_forest ?F [[0], [1]]) = length [[0::real], [1]]"
    using t by blast
  have b: "0 < score_forest ?F [[0], [1]] ! 1 \<and> score_forest ?F [[0], [1]] ! 1 \<le> 1"
    using t i by blast
  have c: "0 < anomaly_score (out ! 0) \<and> anomaly_score (out ! 0) \<le> 1"
    using t run j by blast
  from a b c run show ?thesis by (intro conjI exI [of _ out]) simp_all
qed

end
